theory Spec2Isabelle
  imports Complex_Main "HOL-Library.List_Lexorder"
begin

text \<open>
  A model of \<open>backend/main.py\<close>, the Flask service that recommends songs by mood or
  by song: the preprocessing of the dataset at import, and the handlers of
  \<open>POST /api/recommend/mood\<close> and \<open>POST /api/recommend/song\<close>. The dataset, the
  classifier, the label encoder, the random generators and the case tables of Unicode
  are parameters; strings, JSON values, pandas cells and exceptions are data.
\<close>

section \<open>Python strings\<close>

text \<open>
  A Python \<open>str\<close> is a sequence of Unicode code points, so it is modelled as a list
  of naturals. ASCII text of the source is written through \<open>lit\<close>.
\<close>

type_synonym pystr = "nat list"

definition lit :: "string \<Rightarrow> pystr" where
  "lit s = map of_char s"

definition is_ascii :: "pystr \<Rightarrow> bool" where
  "is_ascii s = list_all (\<lambda>c. c < 128) s"

text \<open>
  \<open>str.isspace\<close> for one code point: the code points CPython's
  \<open>_PyUnicode_IsWhitespace\<close> accepts.
\<close>

definition is_space :: "nat \<Rightarrow> bool" where
  "is_space c =
     (c \<in> set [0x09, 0x0A, 0x0B, 0x0C, 0x0D, 0x1C, 0x1D, 0x1E, 0x1F, 0x20, 0x85, 0xA0,
                0x1680, 0x2000, 0x2001, 0x2002, 0x2003, 0x2004, 0x2005, 0x2006, 0x2007,
                0x2008, 0x2009, 0x200A, 0x2028, 0x2029, 0x202F, 0x205F, 0x3000])"

text \<open>
  The case mappings of the Unicode database are not part of the repository, so they are
  a parameter: \<open>lower_of s i c\<close> is the lowercase of the code point \<open>c\<close> at position
  \<open>i\<close> of the string \<open>s\<close> (CPython's \<open>lower_ucs4\<close>, which reads the context of a
  capital sigma), and \<open>title_of c\<close> is the titlecase of \<open>c\<close>
  (\<open>_PyUnicode_ToTitleFull\<close>); each may be several code points. Only the ASCII part
  is fixed here: \<open>A\<close> to \<open>Z\<close> and \<open>a\<close> to \<open>z\<close> map to each other, and no other
  ASCII code point has a case.
\<close>

record ucd =
  lower_of :: "pystr \<Rightarrow> nat \<Rightarrow> nat \<Rightarrow> nat list"
  title_of :: "nat \<Rightarrow> nat list"

definition ascii_lower :: "nat \<Rightarrow> nat" where
  "ascii_lower c = (if 0x41 \<le> c \<and> c \<le> 0x5A then c + 0x20 else c)"

definition ascii_upper :: "nat \<Rightarrow> nat" where
  "ascii_upper c = (if 0x61 \<le> c \<and> c \<le> 0x7A then c - 0x20 else c)"

definition to_lower_full :: "ucd \<Rightarrow> pystr \<Rightarrow> nat \<Rightarrow> nat \<Rightarrow> nat list" where
  "to_lower_full U s i c = (if c < 128 then [ascii_lower c] else lower_of U s i c)"

definition to_title_full :: "ucd \<Rightarrow> nat \<Rightarrow> nat list" where
  "to_title_full U c = (if c < 128 then [ascii_upper c] else title_of U c)"

text \<open>\<open>lower_from U s i cs\<close> lowercases \<open>cs\<close>, the part of \<open>s\<close> that starts at
  position \<open>i\<close>.\<close>

fun lower_from :: "ucd \<Rightarrow> pystr \<Rightarrow> nat \<Rightarrow> pystr \<Rightarrow> pystr" where
  "lower_from U s i [] = []"
| "lower_from U s i (c # cs) = to_lower_full U s i c @ lower_from U s (Suc i) cs"

text \<open>\<open>str.strip()\<close>, \<open>str.lower()\<close> and \<open>str.capitalize()\<close> (first code point
  to titlecase, the rest to lowercase).\<close>

definition py_strip :: "pystr \<Rightarrow> pystr" where
  "py_strip s = rev (dropWhile is_space (rev (dropWhile is_space s)))"

definition py_lower :: "ucd \<Rightarrow> pystr \<Rightarrow> pystr" where
  "py_lower U s = lower_from U s 0 s"

definition py_capitalize :: "ucd \<Rightarrow> pystr \<Rightarrow> pystr" where
  "py_capitalize U s =
     (case s of [] \<Rightarrow> [] | c # cs \<Rightarrow> to_title_full U c @ lower_from U s 1 cs)"

section \<open>Python values and exceptions\<close>

text \<open>What \<open>request.get_json\<close> can return: the Python value of a JSON document. A
  \<open>dict\<close> is an association list read with \<open>map_of\<close>.\<close>

datatype pyval =
    PNone
  | PBool bool
  | PInt int
  | PFloat real
  | PStr pystr
  | PList "pyval list"
  | PDict "(pystr \<times> pyval) list"

datatype exn =
    AttributeError pystr
  | ValueError pystr
  | IndexError pystr
  | Exception pystr

fun str_exn :: "exn \<Rightarrow> pystr" where
  "str_exn (AttributeError m) = m"
| "str_exn (ValueError m) = m"
| "str_exn (IndexError m) = m"
| "str_exn (Exception m) = m"

fun truthy :: "pyval \<Rightarrow> bool" where
  "truthy PNone = False"
| "truthy (PBool b) = b"
| "truthy (PInt i) = (i \<noteq> 0)"
| "truthy (PFloat x) = (x \<noteq> 0)"
| "truthy (PStr s) = (s \<noteq> [])"
| "truthy (PList vs) = (vs \<noteq> [])"
| "truthy (PDict d) = (d \<noteq> [])"

definition py_or :: "pyval \<Rightarrow> pyval \<Rightarrow> pyval" where
  "py_or a b = (if truthy a then a else b)"

fun type_name :: "pyval \<Rightarrow> pystr" where
  "type_name PNone = lit ''NoneType''"
| "type_name (PBool b) = lit ''bool''"
| "type_name (PInt i) = lit ''int''"
| "type_name (PFloat x) = lit ''float''"
| "type_name (PStr s) = lit ''str''"
| "type_name (PList vs) = lit ''list''"
| "type_name (PDict d) = lit ''dict''"

text \<open>The apostrophe, and the message of the \<open>AttributeError\<close> raised by a method
  call on an object whose type lacks the method.\<close>

definition apos :: pystr where
  "apos = [0x27]"

definition attribute_error :: "pystr \<Rightarrow> pystr \<Rightarrow> exn" where
  "attribute_error tn attr =
     AttributeError (apos @ tn @ apos @ lit '' object has no attribute '' @ apos @ attr @ apos)"

text \<open>\<open>data.get(key, default)\<close> and \<open>v.strip()\<close> on a Python value: only a dict
  has \<open>get\<close>, only a str has \<open>strip\<close>.\<close>

definition dict_get :: "pyval \<Rightarrow> pystr \<Rightarrow> pyval \<Rightarrow> exn + pyval" where
  "dict_get data key dflt =
     (case data of
        PDict d \<Rightarrow> Inr (case map_of d key of None \<Rightarrow> dflt | Some v \<Rightarrow> v)
      | _ \<Rightarrow> Inl (attribute_error (type_name data) (lit ''get'')))"

definition pyval_strip :: "pyval \<Rightarrow> exn + pystr" where
  "pyval_strip v =
     (case v of
        PStr s \<Rightarrow> Inr (py_strip s)
      | _ \<Rightarrow> Inl (attribute_error (type_name v) (lit ''strip'')))"

text \<open>A request body as Flask sees it: \<open>None\<close> when there is no body, the content type
  is not JSON or the body does not parse (\<open>get_json(silent=True)\<close> then returns
  \<open>None\<close>), otherwise the parsed document. \<open>request_data\<close> is
  \<open>request.get_json(silent=True) or {}\<close>.\<close>

definition get_json_silent :: "pyval option \<Rightarrow> pyval" where
  "get_json_silent req = (case req of None \<Rightarrow> PNone | Some v \<Rightarrow> v)"

definition request_data :: "pyval option \<Rightarrow> pyval" where
  "request_data req = py_or (get_json_silent req) (PDict [])"

section \<open>The dataset\<close>

text \<open>A cell of an object column read by \<open>pd.read_csv\<close>: a string, or \<open>NaN\<close> for
  a missing value. The \<open>.str\<close> methods apply the method of \<open>str\<close> to a string and
  keep \<open>NaN\<close>; \<open>astype(str)\<close> turns \<open>NaN\<close> into the string \<open>nan\<close>; a
  comparison of \<open>NaN\<close> with a string is false.\<close>

datatype cell = Str pystr | NaN

fun astype_str :: "cell \<Rightarrow> cell" where
  "astype_str (Str s) = Str s"
| "astype_str NaN = Str (lit ''nan'')"

fun str_strip :: "cell \<Rightarrow> cell" where
  "str_strip (Str s) = Str (py_strip s)"
| "str_strip NaN = NaN"

fun str_lower :: "ucd \<Rightarrow> cell \<Rightarrow> cell" where
  "str_lower U (Str s) = Str (py_lower U s)"
| "str_lower U NaN = NaN"

fun str_capitalize :: "ucd \<Rightarrow> cell \<Rightarrow> cell" where
  "str_capitalize U (Str s) = Str (py_capitalize U s)"
| "str_capitalize U NaN = NaN"

fun cell_eq :: "cell \<Rightarrow> pystr \<Rightarrow> bool" where
  "cell_eq (Str t) s = (t = s)"
| "cell_eq NaN s = False"

fun dropna :: "cell list \<Rightarrow> pystr list" where
  "dropna [] = []"
| "dropna (Str s # cs) = s # dropna cs"
| "dropna (NaN # cs) = dropna cs"

text \<open>\<open>Series.unique()\<close>: the distinct values in order of first appearance.\<close>

fun unique_from :: "'a list \<Rightarrow> 'a list \<Rightarrow> 'a list" where
  "unique_from seen [] = []"
| "unique_from seen (x # xs) =
     (if x \<in> set seen then unique_from seen xs else x # unique_from (x # seen) xs)"

definition unique :: "'a list \<Rightarrow> 'a list" where
  "unique xs = unique_from [] xs"

record 'x song =
  song_name :: cell
  mood :: cell
  valence :: 'x
  danceability :: 'x
  energy :: 'x
  tempo :: 'x
  acousticness :: 'x
  liveness :: 'x

text \<open>The columns \<open>features\<close> of one row, in the order of the list \<open>features\<close>.\<close>

definition input_features :: "'x song \<Rightarrow> 'x list" where
  "input_features r =
     [valence r, danceability r, energy r, tempo r, acousticness r, liveness r]"

section \<open>The loaded resources\<close>

text \<open>A decoded label: a string, or an object of another type (named), which has no
  \<open>strip\<close>.\<close>

datatype label = LabelStr pystr | LabelOther pystr

text \<open>
  What the module loads and the libraries it calls, as parameters:
  \<^item> \<open>unicode\<close>: the case tables;
  \<^item> \<open>csv\<close>: the rows \<open>pd.read_csv\<close> returned;
  \<^item> \<open>model_predict\<close>: \<open>model.predict(input_df)[0]\<close> on a feature vector, an encoded
    class or the exception raised;
  \<^item> \<open>le_inverse_transform\<close>: \<open>le.inverse_transform([c])[0]\<close>;
  \<^item> \<open>randint r a b\<close>: \<open>random.randint(a, b)\<close> in the state \<open>r\<close> of the generator
    of the module \<open>random\<close>, with the state it leaves;
  \<^item> \<open>np_seed seed\<close>: the state of a new \<open>numpy.random.RandomState(seed)\<close>;
  \<^item> \<open>np_permutation s n\<close>: \<open>permutation(n)\<close> of a numpy generator in the state
    \<open>s\<close>, with the state it leaves.
\<close>

record ('x, 'c, 'r, 's) env =
  unicode :: ucd
  csv :: "'x song list"
  model_predict :: "'x list \<Rightarrow> exn + 'c"
  le_inverse_transform :: "'c \<Rightarrow> exn + label"
  randint :: "'r \<Rightarrow> nat \<Rightarrow> nat \<Rightarrow> nat \<times> 'r"
  np_seed :: "nat \<Rightarrow> 's"
  np_permutation :: "'s \<Rightarrow> nat \<Rightarrow> nat list \<times> 's"

text \<open>The generators a request finds in the process: the one of the module
  \<open>random\<close> and the global one of numpy.\<close>

record ('r, 's) generators =
  py_random :: 'r
  np_random :: 's

text \<open>The contracts of the generators: a permutation of \<open>range(n)\<close>, and an integer
  between the bounds.\<close>

definition permutation_contract :: "('x, 'c, 'r, 's) env \<Rightarrow> bool" where
  "permutation_contract E \<longleftrightarrow>
     (\<forall>s n. length (fst (np_permutation E s n)) = n
            \<and> set (fst (np_permutation E s n)) = {0..<n})"

definition randint_contract :: "('x, 'c, 'r, 's) env \<Rightarrow> bool" where
  "randint_contract E \<longleftrightarrow>
     (\<forall>r a b. a \<le> b \<longrightarrow> a \<le> fst (randint E r a b) \<and> fst (randint E r a b) \<le> b)"

subsection \<open>Preprocessing\<close>

definition normalize_dataset_mood :: "ucd \<Rightarrow> cell \<Rightarrow> cell" where
  "normalize_dataset_mood U c = str_capitalize U (str_lower U (str_strip (astype_str c)))"

definition df :: "('x, 'c, 'r, 's) env \<Rightarrow> 'x song list" where
  "df E = map (\<lambda>r. r\<lparr>mood := normalize_dataset_mood (unicode E) (mood r)\<rparr>) (csv E)"

definition available_moods :: "('x, 'c, 'r, 's) env \<Rightarrow> pystr list" where
  "available_moods E = sort (unique (dropna (map mood (df E))))"

subsection \<open>Sampling\<close>

text \<open>
  \<open>rows.sample(n, random_state=rs)\<close>, called while numpy's global generator is in the
  state \<open>np\<close>. pandas raises \<open>ValueError\<close> when \<open>n\<close> exceeds the number of rows.
  Otherwise it takes the rows at the first \<open>n\<close> positions of a permutation of
  \<open>range(len(rows))\<close>: with an integer \<open>rs\<close> the permutation of a new
  \<open>RandomState(rs)\<close>, which leaves the global generator alone, and with \<open>None\<close> the
  permutation of the global generator, which advances. \<open>take\<close> raises
  \<open>IndexError\<close> on a position outside the frame.
\<close>

definition take_rows :: "'a list \<Rightarrow> nat list \<Rightarrow> exn + 'a list" where
  "take_rows rows idx =
     (if list_all (\<lambda>i. i < length rows) idx then Inr (map (\<lambda>i. rows ! i) idx)
      else Inl (IndexError (lit ''indices are out-of-bounds'')))"

definition seeded_permutation :: "('x, 'c, 'r, 's) env \<Rightarrow> nat \<Rightarrow> nat \<Rightarrow> nat list" where
  "seeded_permutation E seed n = fst (np_permutation E (np_seed E seed) n)"

definition sample ::
  "('x, 'c, 'r, 's) env \<Rightarrow> 'a list \<Rightarrow> nat \<Rightarrow> nat option \<Rightarrow> 's \<Rightarrow> (exn + 'a list) \<times> 's" where
  "sample E rows n random_state np =
     (if length rows < n then
        (Inl (ValueError (lit ''Cannot take a larger sample than population when '' @ apos
                          @ lit ''replace=False'' @ apos)), np)
      else
        (case random_state of
           Some seed \<Rightarrow> (take_rows rows (take n (seeded_permutation E seed (length rows))), np)
         | None \<Rightarrow>
             (case np_permutation E np (length rows) of
                (p, np') \<Rightarrow> (take_rows rows (take n p), np'))))"

section \<open>The two POST handlers\<close>

text \<open>A JSON response body of the API, and the response with its status code.\<close>

datatype body =
    Error pystr
  | MoodSongs pystr "cell list"
  | SongRecs pystr pystr "cell list"

type_synonym response = "body \<times> nat"

text \<open>The three sites that normalize a mood: the dataset column (above), the
  \<open>mood\<close> field of a request, and the decoded label.\<close>

definition normalize_mood_query :: "ucd \<Rightarrow> pyval \<Rightarrow> exn + pystr" where
  "normalize_mood_query U v =
     (case pyval_strip v of Inl e \<Rightarrow> Inl e | Inr s \<Rightarrow> Inr (py_capitalize U s))"

definition normalize_label :: "ucd \<Rightarrow> label \<Rightarrow> exn + pystr" where
  "normalize_label U l =
     (case l of
        LabelStr s \<Rightarrow> Inr (py_capitalize U (py_strip s))
      | LabelOther tn \<Rightarrow> Inl (attribute_error tn (lit ''strip'')))"

text \<open>The frames the handlers filter out of \<open>df\<close>.\<close>

definition songs_by_mood :: "('x, 'c, 'r, 's) env \<Rightarrow> pystr \<Rightarrow> 'x song list" where
  "songs_by_mood E mood_input = filter (\<lambda>r. cell_eq (mood r) mood_input) (df E)"

definition name_matches :: "('x, 'c, 'r, 's) env \<Rightarrow> pystr \<Rightarrow> 'x song \<Rightarrow> bool" where
  "name_matches E song_input r =
     cell_eq (str_lower (unicode E) (song_name r)) (py_lower (unicode E) song_input)"

definition song_rows :: "('x, 'c, 'r, 's) env \<Rightarrow> pystr \<Rightarrow> 'x song list" where
  "song_rows E song_input = filter (name_matches E song_input) (df E)"

definition mood_songs :: "('x, 'c, 'r, 's) env \<Rightarrow> pystr \<Rightarrow> pystr \<Rightarrow> 'x song list" where
  "mood_songs E predicted_mood song_input =
     filter (\<lambda>r. cell_eq (mood r) predicted_mood \<and> \<not> name_matches E song_input r) (df E)"

text \<open>\<open>recommend_songs_by_mood\<close>, called while the generators are in the state \<open>g\<close>.
  The result is the response, or the exception that leaves the handler, and the state of
  the generators afterwards.\<close>

definition recommend_songs_by_mood ::
  "('x, 'c, 'r, 's) env \<Rightarrow> ('r, 's) generators \<Rightarrow> pyval option
     \<Rightarrow> (exn + response) \<times> ('r, 's) generators" where
  "recommend_songs_by_mood E g req =
     (case dict_get (request_data req) (lit ''mood'') (PStr []) of
        Inl e \<Rightarrow> (Inl e, g)
      | Inr v \<Rightarrow>
     (case normalize_mood_query (unicode E) v of
        Inl e \<Rightarrow> (Inl e, g)
      | Inr mood_input \<Rightarrow>
          if mood_input = [] then (Inr (Error (lit ''Mood is required.''), 400), g)
          else if mood_input \<notin> set (available_moods E) then
            (Inr (Error (lit ''Mood '' @ apos @ mood_input @ apos @ lit '' not found.''), 404), g)
          else
            let filtered_songs = songs_by_mood E mood_input in
            if filtered_songs = [] then
              (Inr (Error (lit ''No songs found for mood '' @ apos @ mood_input @ apos
                           @ lit ''.''), 404), g)
            else
              (case randint E (py_random g) 5 8 of (k, r') \<Rightarrow>
                 let count = min k (length filtered_songs) in
                 (case sample E filtered_songs count (Some 42) (np_random g) of
                    (Inl e, np') \<Rightarrow> (Inl e, \<lparr>py_random = r', np_random = np'\<rparr>)
                  | (Inr sampled_songs, np') \<Rightarrow>
                      (Inr (MoodSongs mood_input (map song_name sampled_songs), 200),
                       \<lparr>py_random = r', np_random = np'\<rparr>)))))"

text \<open>The \<open>try\<close> block of \<open>recommend_songs_by_song\<close>: the features of the first row
  of \<open>song_row\<close> go to the model, the decoder and the normalization; any exception is
  the block's result.\<close>

definition decode_prediction :: "('x, 'c, 'r, 's) env \<Rightarrow> exn + 'c \<Rightarrow> exn + pystr" where
  "decode_prediction E p =
     (case p of
        Inl e \<Rightarrow> Inl e
      | Inr predicted_mood_encoded \<Rightarrow>
          (case le_inverse_transform E predicted_mood_encoded of
             Inl e \<Rightarrow> Inl e
           | Inr l \<Rightarrow> normalize_label (unicode E) l))"

definition predict_mood :: "('x, 'c, 'r, 's) env \<Rightarrow> 'x song \<Rightarrow> exn + pystr" where
  "predict_mood E row0 = decode_prediction E (model_predict E (input_features row0))"

text \<open>The handler from the \<open>except\<close> clause on, given the outcome of the \<open>try\<close>
  block.\<close>

definition recommend_from_prediction ::
  "('x, 'c, 'r, 's) env \<Rightarrow> ('r, 's) generators \<Rightarrow> pystr \<Rightarrow> exn + pystr
     \<Rightarrow> (exn + response) \<times> ('r, 's) generators" where
  "recommend_from_prediction E g song_input p =
     (case p of
        Inl e \<Rightarrow> (Inr (Error (lit ''Prediction failed: '' @ str_exn e), 500), g)
      | Inr predicted_mood \<Rightarrow>
          let candidates = mood_songs E predicted_mood song_input in
          if candidates = [] then
            (Inr (Error (lit ''No recommendations found for mood '' @ apos @ predicted_mood
                         @ apos @ lit ''.''), 404), g)
          else
            (case randint E (py_random g) 5 8 of (k, r') \<Rightarrow>
               let count = min k (length candidates) in
               (case sample E candidates count (Some 42) (np_random g) of
                  (Inl e, np') \<Rightarrow> (Inl e, \<lparr>py_random = r', np_random = np'\<rparr>)
                | (Inr recommendations, np') \<Rightarrow>
                    (Inr (SongRecs song_input predicted_mood
                            (map song_name recommendations), 200),
                     \<lparr>py_random = r', np_random = np'\<rparr>))))"

definition recommend_songs_by_song ::
  "('x, 'c, 'r, 's) env \<Rightarrow> ('r, 's) generators \<Rightarrow> pyval option
     \<Rightarrow> (exn + response) \<times> ('r, 's) generators" where
  "recommend_songs_by_song E g req =
     (case dict_get (request_data req) (lit ''song'') (PStr []) of
        Inl e \<Rightarrow> (Inl e, g)
      | Inr v \<Rightarrow>
     (case pyval_strip v of
        Inl e \<Rightarrow> (Inl e, g)
      | Inr song_input \<Rightarrow>
          if song_input = [] then (Inr (Error (lit ''Song name is required.''), 400), g)
          else
            (case song_rows E song_input of
               [] \<Rightarrow>
                 (Inr (Error (lit ''Song '' @ apos @ song_input @ apos @ lit '' not found.''),
                       404), g)
             | row0 # _ \<Rightarrow>
                 recommend_from_prediction E g song_input (predict_mood E row0))))"

section \<open>Example resources\<close>

text \<open>Case tables with Python's entries for U+212A KELVIN SIGN, whose lowercase is
  \<open>k\<close> and whose titlecase is itself; the examples use no other code point outside
  ASCII.\<close>

definition demo_unicode :: ucd where
  "demo_unicode =
     \<lparr>lower_of = (\<lambda>s i c. if c = 0x212A then [0x6B] else [c]), title_of = (\<lambda>c. [c])\<rparr>"

text \<open>A classifier that reads the class off the first feature; a \<open>random\<close> whose state
  is a counter; a numpy generator whose state is a counter and whose permutation is the
  reversed range in an even state and the range in an odd one.\<close>

definition row :: "string \<Rightarrow> cell \<Rightarrow> nat \<Rightarrow> nat song" where
  "row name m v =
     \<lparr>song_name = Str (lit name), mood = m, valence = v, danceability = 0, energy = 0,
      tempo = 0, acousticness = 0, liveness = 0\<rparr>"

definition demo_predict :: "nat list \<Rightarrow> exn + nat" where
  "demo_predict fs = (case fs of [] \<Rightarrow> Inl (Exception (lit ''no features'')) | v # _ \<Rightarrow> Inr v)"

definition demo_inverse_transform :: "nat \<Rightarrow> exn + label" where
  "demo_inverse_transform c =
     (if c = 0 then Inr (LabelStr (lit ''happy''))
      else if c = 1 then Inr (LabelStr (lit ''sad''))
      else Inl (ValueError (lit ''y contains previously unseen labels'')))"

definition demo_resources :: "nat song list \<Rightarrow> (nat, nat, nat, nat) env" where
  "demo_resources rows =
     \<lparr>unicode = demo_unicode,
      csv = rows,
      model_predict = demo_predict,
      le_inverse_transform = demo_inverse_transform,
      randint = (\<lambda>r a b. (a + r mod (b + 1 - a), Suc r)),
      np_seed = (\<lambda>seed. seed),
      np_permutation = (\<lambda>s n. (if even s then rev [0..<n] else [0..<n], Suc s))\<rparr>"

definition gens :: "nat \<Rightarrow> nat \<Rightarrow> (nat, nat) generators" where
  "gens r s = \<lparr>py_random = r, np_random = s\<rparr>"

text \<open>A dataset with mixed-case moods, a missing mood and a duplicated song name.\<close>

definition demo_env :: "(nat, nat, nat, nat) env" where
  "demo_env = demo_resources
     [row ''Sunny'' (Str (lit ''HAPPY'')) 0,
      row ''Song A'' (Str (lit '' happy '')) 0,
      row ''Blue'' (Str (lit ''sad'')) 1,
      row ''Lost'' NaN 1,
      row ''SONG A'' (Str (lit ''Sad'')) 1,
      row ''Joy'' (Str (lit ''Happy'')) 0,
      row ''Smile'' (Str (lit ''happy'')) 0,
      row ''Dance'' (Str (lit ''Happy'')) 0,
      row ''Shine'' (Str (lit ''happy'')) 0]"

text \<open>Two datasets in which a song name has a leading space, and one whose only mood
  is the Kelvin sign.\<close>

definition spaced_env :: "(nat, nat, nat, nat) env" where
  "spaced_env = demo_resources
     [row ''foo'' (Str (lit ''Happy'')) 0,
      row '' Foo'' (Str (lit ''Happy'')) 0]"

definition spaced_first_env :: "(nat, nat, nat, nat) env" where
  "spaced_first_env = demo_resources
     [row '' Foo'' (Str (lit ''Sad'')) 1,
      row ''foo'' (Str (lit ''Happy'')) 0,
      row ''Joy'' (Str (lit ''Happy'')) 0]"

definition kelvin_env :: "(nat, nat, nat, nat) env" where
  "kelvin_env = demo_resources [row ''Zero'' (Str [0x212A]) 0]"

definition mood_request :: "string \<Rightarrow> pyval option" where
  "mood_request m = Some (PDict [(lit ''mood'', PStr (lit m))])"

definition song_request :: "string \<Rightarrow> pyval option" where
  "song_request n = Some (PDict [(lit ''song'', PStr (lit n))])"

section \<open>Basic facts\<close>

subsection \<open>Strings and normalization\<close>

lemmas string_defs = lit_def py_strip_def py_lower_def py_capitalize_def is_space_def
  to_lower_full_def to_title_full_def ascii_lower_def ascii_upper_def apos_def

lemma normalize_dataset_mood_Str:
  "normalize_dataset_mood U (Str s) = Str (py_capitalize U (py_lower U (py_strip s)))"
  by (simp add: normalize_dataset_mood_def)

lemma normalize_dataset_mood_NaN: "normalize_dataset_mood U NaN = Str (lit ''Nan'')"
  by (simp add: normalize_dataset_mood_def string_defs)

lemma normalize_dataset_mood_is_Str: "\<exists>s. normalize_dataset_mood U c = Str s"
  by (cases c) (simp_all add: normalize_dataset_mood_Str normalize_dataset_mood_NaN)

lemma lower_from_ascii: "is_ascii cs \<Longrightarrow> lower_from U s i cs = map ascii_lower cs"
  by (induction cs arbitrary: i) (simp_all add: is_ascii_def to_lower_full_def)

lemma ascii_lower_facts:
  "c < 128 \<Longrightarrow> ascii_lower c < 128"
  "ascii_lower (ascii_lower c) = ascii_lower c"
  "ascii_upper (ascii_lower c) = ascii_upper c"
  by (auto simp: ascii_lower_def ascii_upper_def)

lemma is_ascii_map_lower: "is_ascii cs \<Longrightarrow> is_ascii (map ascii_lower cs)"
  by (induction cs) (simp_all add: is_ascii_def ascii_lower_facts(1))

lemma is_ascii_strip: "is_ascii s \<Longrightarrow> is_ascii (py_strip s)"
proof -
  have "set (py_strip s) \<subseteq> set s"
    using set_dropWhileD [of _ is_space] unfolding py_strip_def
    by (metis set_rev subsetI)
  then show "is_ascii s \<Longrightarrow> is_ascii (py_strip s)"
    by (auto simp: is_ascii_def list_all_iff)
qed

lemma capitalize_lower_ascii:
  assumes "is_ascii t"
  shows "py_capitalize U (py_lower U t) = py_capitalize U t"
proof (cases t)
  case Nil
  then show ?thesis by (simp add: py_lower_def py_capitalize_def)
next
  case (Cons c cs)
  then have c: "c < 128" and cs: "is_ascii cs"
    using assms by (simp_all add: is_ascii_def)
  have "py_lower U t = map ascii_lower t"
    using lower_from_ascii [OF assms, of U t 0] by (simp add: py_lower_def)
  then have l: "py_lower U t = ascii_lower c # map ascii_lower cs"
    using Cons by simp
  have "py_capitalize U (ascii_lower c # map ascii_lower cs)
      = ascii_upper c # map ascii_lower cs"
    using c cs
    by (simp add: py_capitalize_def to_title_full_def lower_from_ascii is_ascii_map_lower
        ascii_lower_facts)
  then have "py_capitalize U (py_lower U t) = ascii_upper c # map ascii_lower cs"
    by (simp only: l)
  moreover have "py_capitalize U (c # cs) = ascii_upper c # map ascii_lower cs"
    using c cs by (simp add: py_capitalize_def to_title_full_def lower_from_ascii)
  ultimately show ?thesis
    using Cons by simp
qed

lemma normalization_sites_agree_on_ascii:
  assumes "is_ascii s"
  shows "normalize_dataset_mood U (Str s) = Str (py_capitalize U (py_strip s))
    \<and> normalize_mood_query U (PStr s) = Inr (py_capitalize U (py_strip s))
    \<and> normalize_label U (LabelStr s) = Inr (py_capitalize U (py_strip s))"
  using capitalize_lower_ascii [OF is_ascii_strip [OF assms]]
  by (simp add: normalize_dataset_mood_Str normalize_mood_query_def pyval_strip_def
      normalize_label_def)

subsection \<open>The dataset and the available moods\<close>

lemma length_df: "length (df E) = length (csv E)"
  by (simp add: df_def)

lemma mood_df_nth:
  "i < length (csv E) \<Longrightarrow>
   mood (df E ! i) = normalize_dataset_mood (unicode E) (mood (csv E ! i))"
  by (simp add: df_def)

lemma name_matches_df:
  "i < length (csv E) \<Longrightarrow> name_matches E s (df E ! i) = name_matches E s (csv E ! i)"
  by (simp add: df_def name_matches_def)

lemma input_features_df:
  "i < length (csv E) \<Longrightarrow> input_features (df E ! i) = input_features (csv E ! i)"
  by (simp add: df_def input_features_def)

lemma cell_eq_iff: "cell_eq c s \<longleftrightarrow> c = Str s"
  by (cases c) auto

lemma set_unique_from: "set (unique_from seen xs) = set xs - set seen"
  by (induction xs arbitrary: seen) auto

lemma set_unique: "set (unique xs) = set xs"
  by (simp add: unique_def set_unique_from)

lemma set_dropna: "set (dropna cs) = {s. Str s \<in> set cs}"
  by (induction cs rule: dropna.induct) auto

lemma mem_available_moods:
  "m \<in> set (available_moods E) \<longleftrightarrow> Str m \<in> set (map mood (df E))"
  by (simp add: available_moods_def set_unique set_dropna)

lemma songs_by_mood_empty_iff:
  "songs_by_mood E m = [] \<longleftrightarrow> Str m \<notin> set (map mood (df E))"
  by (force simp: songs_by_mood_def filter_empty_conv cell_eq_iff)

lemma available_has_songs: "m \<in> set (available_moods E) \<Longrightarrow> songs_by_mood E m \<noteq> []"
  by (simp add: mem_available_moods songs_by_mood_empty_iff)

lemma filter_first_match:
  assumes "i < length xs" "P (xs ! i)" "\<forall>j<i. \<not> P (xs ! j)"
  shows "\<exists>rest. filter P xs = xs ! i # rest"
  using assms
proof (induction xs arbitrary: i)
  case Nil
  then show ?case by simp
next
  case (Cons x xs)
  show ?case
  proof (cases i)
    case 0
    then show ?thesis using Cons.prems by simp
  next
    case (Suc k)
    have nx: "\<not> P x"
      using Cons.prems(3) Suc by (metis nth_Cons_0 zero_less_Suc)
    have "\<forall>j<k. \<not> P (xs ! j)"
      using Cons.prems(3) Suc by (metis Suc_less_eq nth_Cons_Suc)
    then have "\<exists>rest. filter P xs = xs ! k # rest"
      using Cons.IH [of k] Cons.prems Suc by simp
    then show ?thesis
      using nx Suc by simp
  qed
qed

subsection \<open>Sampling\<close>

lemma sample_seeded:
  "sample E rows n (Some seed) np =
     (if length rows < n then
        Inl (ValueError (lit ''Cannot take a larger sample than population when '' @ apos
                         @ lit ''replace=False'' @ apos))
      else take_rows rows (take n (seeded_permutation E seed (length rows))), np)"
  by (simp add: sample_def)

lemma take_rows_Inr:
  "take_rows rows idx = Inr xs \<Longrightarrow> set xs \<subseteq> set rows \<and> length xs = length idx"
  by (auto simp: take_rows_def list_all_iff split: if_splits)

lemma sample_Inr:
  assumes "fst (sample E rows n (Some seed) np) = Inr xs"
  shows "set xs \<subseteq> set rows" "length xs \<le> n"
  using assms take_rows_Inr [of rows "take n (seeded_permutation E seed (length rows))" xs]
  by (auto simp: sample_seeded split: if_splits)

lemma sample_contract:
  assumes "permutation_contract E" "n \<le> length rows"
  shows "\<exists>xs. fst (sample E rows n (Some seed) np) = Inr xs \<and> length xs = n"
proof -
  let ?p = "seeded_permutation E seed (length rows)"
  have len: "length ?p = length rows" and st: "set ?p = {0..<length rows}"
    using assms(1) by (simp_all add: permutation_contract_def seeded_permutation_def)
  have "list_all (\<lambda>i. i < length rows) (take n ?p)"
    using st set_take_subset [of n ?p] by (auto simp: list_all_iff)
  then show ?thesis
    using assms(2) len by (simp add: sample_seeded take_rows_def)
qed

lemma sample_contract_length:
  assumes "permutation_contract E"
    and "fst (sample E rows (min k (length rows)) (Some seed) np) = Inr xs"
  shows "length xs = min k (length rows)"
  using sample_contract [OF assms(1), of "min k (length rows)" rows seed np] assms(2) by auto

lemma sample_min_Inr:
  assumes "permutation_contract E"
  shows "\<exists>xs. fst (sample E rows (min k (length rows)) (Some seed) np) = Inr xs"
  using sample_contract [OF assms, of "min k (length rows)" rows seed np] by auto

lemma count_bounds:
  fixes k N :: nat
  assumes "5 \<le> k" "k \<le> 8"
  shows "min 5 N \<le> min k N \<and> min k N \<le> min 8 N \<and> (N < 5 \<longrightarrow> min k N = N)"
  using assms by auto

lemma randint_5_8:
  "randint_contract E \<Longrightarrow> 5 \<le> fst (randint E r 5 8) \<and> fst (randint E r 5 8) \<le> 8"
  by (simp add: randint_contract_def)

subsection \<open>The handlers, case by case\<close>

lemma request_data_simps:
  "request_data None = PDict []"
  "request_data (Some PNone) = PDict []"
  "request_data (Some (PDict d)) = PDict d"
  by (simp_all add: request_data_def get_json_silent_def py_or_def)

lemma no_songs_msg_neq:
  "lit ''Mood '' @ apos @ a @ apos @ lit '' not found.''
     \<noteq> lit ''No songs found for mood '' @ apos @ b @ apos @ lit ''.''"
  by (simp add: lit_def)

lemma by_mood_missing:
  assumes "request_data req = PDict d" "map_of d (lit ''mood'') = None"
  shows "recommend_songs_by_mood E g req = (Inr (Error (lit ''Mood is required.''), 400), g)"
  using assms
  by (simp add: recommend_songs_by_mood_def dict_get_def normalize_mood_query_def
      pyval_strip_def py_strip_def py_capitalize_def)

lemma by_song_missing:
  assumes "request_data req = PDict d" "map_of d (lit ''song'') = None"
  shows "recommend_songs_by_song E g req
    = (Inr (Error (lit ''Song name is required.''), 400), g)"
  using assms
  by (simp add: recommend_songs_by_song_def dict_get_def pyval_strip_def py_strip_def)

lemma by_mood_empty_field:
  "recommend_songs_by_mood E g (Some (PDict [(lit ''mood'', PStr [])]))
     = (Inr (Error (lit ''Mood is required.''), 400), g)"
  by (simp add: recommend_songs_by_mood_def request_data_simps dict_get_def
      normalize_mood_query_def pyval_strip_def py_strip_def py_capitalize_def)

lemma by_song_empty_field:
  "recommend_songs_by_song E g (Some (PDict [(lit ''song'', PStr [])]))
     = (Inr (Error (lit ''Song name is required.''), 400), g)"
  by (simp add: recommend_songs_by_song_def request_data_simps dict_get_def pyval_strip_def
      py_strip_def)

text \<open>The response alone. The state \<open>np\<close> of numpy's global generator is any state:
  the seeded sample does not read it.\<close>

lemma fst_from_prediction:
  "fst (recommend_from_prediction E g s pr) =
     (case pr of
        Inl e \<Rightarrow> Inr (Error (lit ''Prediction failed: '' @ str_exn e), 500)
      | Inr p \<Rightarrow>
          if mood_songs E p s = [] then
            Inr (Error (lit ''No recommendations found for mood '' @ apos @ p @ apos @ lit ''.''), 404)
          else
            (case fst (sample E (mood_songs E p s)
                    (min (fst (randint E (py_random g) 5 8)) (length (mood_songs E p s)))
                    (Some 42) np) of
               Inl e \<Rightarrow> Inl e
             | Inr recs \<Rightarrow> Inr (SongRecs s p (map song_name recs), 200)))"
proof (cases "randint E (py_random g) 5 8")
  case (Pair k r')
  then show ?thesis
    by (simp add: recommend_from_prediction_def Let_def sample_seeded split: sum.splits)
qed

lemma fst_by_mood:
  "fst (recommend_songs_by_mood E g req) =
     (case dict_get (request_data req) (lit ''mood'') (PStr []) of
        Inl e \<Rightarrow> Inl e
      | Inr v \<Rightarrow>
     (case normalize_mood_query (unicode E) v of
        Inl e \<Rightarrow> Inl e
      | Inr m \<Rightarrow>
          if m = [] then Inr (Error (lit ''Mood is required.''), 400)
          else if m \<notin> set (available_moods E) then
            Inr (Error (lit ''Mood '' @ apos @ m @ apos @ lit '' not found.''), 404)
          else
            (case fst (sample E (songs_by_mood E m)
                    (min (fst (randint E (py_random g) 5 8)) (length (songs_by_mood E m)))
                    (Some 42) np) of
               Inl e \<Rightarrow> Inl e
             | Inr sampled \<Rightarrow> Inr (MoodSongs m (map song_name sampled), 200))))"
proof (cases "randint E (py_random g) 5 8")
  case (Pair k r')
  then show ?thesis
    by (simp add: recommend_songs_by_mood_def Let_def available_has_songs sample_seeded
        split: sum.splits)
qed

lemma fst_by_song:
  "fst (recommend_songs_by_song E g req) =
     (case dict_get (request_data req) (lit ''song'') (PStr []) of
        Inl e \<Rightarrow> Inl e
      | Inr v \<Rightarrow>
     (case pyval_strip v of
        Inl e \<Rightarrow> Inl e
      | Inr s \<Rightarrow>
          if s = [] then Inr (Error (lit ''Song name is required.''), 400)
          else
            (case song_rows E s of
               [] \<Rightarrow> Inr (Error (lit ''Song '' @ apos @ s @ apos @ lit '' not found.''), 404)
             | row0 # _ \<Rightarrow> fst (recommend_from_prediction E g s (predict_mood E row0)))))"
  by (simp add: recommend_songs_by_song_def split: sum.splits list.splits)

lemma by_mood_field:
  assumes "request_data req = PDict d" "map_of d (lit ''mood'') = Some (PStr s)"
  shows "fst (recommend_songs_by_mood E g req) =
    (let m = py_capitalize (unicode E) (py_strip s) in
     if m = [] then Inr (Error (lit ''Mood is required.''), 400)
     else if m \<notin> set (available_moods E) then
       Inr (Error (lit ''Mood '' @ apos @ m @ apos @ lit '' not found.''), 404)
     else (case fst (sample E (songs_by_mood E m)
                   (min (fst (randint E (py_random g) 5 8)) (length (songs_by_mood E m)))
                   (Some 42) np) of
             Inl e \<Rightarrow> Inl e
           | Inr sampled \<Rightarrow> Inr (MoodSongs m (map song_name sampled), 200)))"
  using assms
  by (simp add: fst_by_mood [of E g req np] dict_get_def normalize_mood_query_def
      pyval_strip_def Let_def)

lemma from_prediction_200:
  assumes "fst (recommend_from_prediction E g s0 pr) = Inr (SongRecs s p recs, 200)"
  shows "s = s0 \<and> pr = Inr p \<and> mood_songs E p s \<noteq> []
    \<and> (\<exists>xs. fst (sample E (mood_songs E p s)
               (min (fst (randint E (py_random g) 5 8)) (length (mood_songs E p s)))
               (Some 42) np) = Inr xs
            \<and> recs = map song_name xs)"
  using assms
  by (auto simp: fst_from_prediction [of E g s0 pr np] split: sum.splits if_splits)

lemma by_song_200:
  assumes "fst (recommend_songs_by_song E g req) = Inr (SongRecs s p recs, 200)"
  shows "\<exists>d q row0 rest. request_data req = PDict d \<and> map_of d (lit ''song'') = Some (PStr q)
    \<and> s = py_strip q \<and> s \<noteq> [] \<and> song_rows E s = row0 # rest
    \<and> fst (recommend_from_prediction E g s (predict_mood E row0)) = Inr (SongRecs s p recs, 200)"
proof -
  note h = assms [unfolded fst_by_song]
  obtain v where v: "dict_get (request_data req) (lit ''song'') (PStr []) = Inr v"
    using h by (auto split: sum.splits)
  obtain s0 where s0: "pyval_strip v = Inr s0"
    using h v by (auto split: sum.splits)
  then obtain q where q: "v = PStr q" "s0 = py_strip q"
    by (cases v) (auto simp: pyval_strip_def)
  have ne: "s0 \<noteq> []"
    using h v s0 by (auto split: if_splits)
  obtain row0 rest where rows: "song_rows E s0 = row0 # rest"
    using h v s0 ne by (cases "song_rows E s0") auto
  have r: "fst (recommend_from_prediction E g s0 (predict_mood E row0)) = Inr (SongRecs s p recs, 200)"
    using h v s0 ne rows by simp
  have eq: "s = s0"
    using from_prediction_200 [OF r] by simp
  obtain d where d: "request_data req = PDict d"
    using v by (cases "request_data req") (auto simp: dict_get_def)
  have "map_of d (lit ''song'') = Some (PStr q)"
    using v q d ne by (auto simp: dict_get_def py_strip_def split: option.splits)
  then show ?thesis
    using d q ne rows r eq by auto
qed

lemma by_mood_200:
  assumes "fst (recommend_songs_by_mood E g req) = Inr (MoodSongs m songs, 200)"
  shows "\<exists>xs. fst (sample E (songs_by_mood E m)
               (min (fst (randint E (py_random g) 5 8)) (length (songs_by_mood E m)))
               (Some 42) np) = Inr xs
            \<and> songs = map song_name xs"
  using assms
  by (auto simp: fst_by_mood [of E g req np] split: sum.splits if_splits)

lemma from_prediction_answers:
  assumes "permutation_contract E"
  shows "\<exists>r. fst (recommend_from_prediction E g s pr) = Inr r"
proof (cases pr)
  case (Inl e)
  then show ?thesis
    by (simp add: fst_from_prediction [where np = "np_random g"])
next
  case (Inr p)
  obtain xs where "fst (sample E (mood_songs E p s)
      (min (fst (randint E (py_random g) 5 8)) (length (mood_songs E p s)))
      (Some 42) (np_random g)) = Inr xs"
    using sample_min_Inr [OF assms] by blast
  then show ?thesis
    using Inr by (simp add: fst_from_prediction [where np = "np_random g"])
qed

subsection \<open>The example resources\<close>

lemmas handler_defs = recommend_songs_by_mood_def recommend_songs_by_song_def
  recommend_from_prediction_def predict_mood_def decode_prediction_def normalize_label_def
  normalize_mood_query_def pyval_strip_def dict_get_def request_data_simps
  songs_by_mood_def song_rows_def mood_songs_def name_matches_def sample_def
  seeded_permutation_def take_rows_def input_features_def df_def normalize_dataset_mood_def
  mem_available_moods

lemmas demo_defs = demo_env_def spaced_env_def spaced_first_env_def kelvin_env_def
  demo_resources_def demo_unicode_def demo_predict_def demo_inverse_transform_def row_def
  mood_request_def song_request_def gens_def

lemma demo_csv_length: "length (csv demo_env) = 9"
  by (simp add: demo_env_def demo_resources_def)

lemma demo_csv_3: "mood (csv demo_env ! 3) = NaN"
  by (simp add: demo_env_def demo_resources_def row_def)

lemma demo_moods:
  "map mood (df demo_env) = map (\<lambda>s. Str (lit s))
     [''Happy'', ''Happy'', ''Sad'', ''Nan'', ''Sad'', ''Happy'', ''Happy'', ''Happy'', ''Happy'']"
  by (simp add: df_def demo_env_def demo_resources_def row_def normalize_dataset_mood_def
      string_defs)

lemma demo_permutation_contract: "permutation_contract demo_env"
  by (simp add: permutation_contract_def demo_env_def demo_resources_def)

lemma demo_randint_contract: "randint_contract demo_env"
proof -
  have "a + r mod (Suc b - a) \<le> b" if "a \<le> b" for a b r :: nat
  proof -
    have "r mod (Suc b - a) < Suc b - a"
      using that by (intro mod_less_divisor) simp
    then show ?thesis using that by linarith
  qed
  then show ?thesis
    by (simp add: randint_contract_def demo_env_def demo_resources_def)
qed

lemma demo_by_mood_happy:
  "fst (recommend_songs_by_mood demo_env (gens 0 0) (mood_request '' happy''))
     = Inr (MoodSongs (lit ''Happy'')
             (map (\<lambda>n. Str (lit n)) [''Shine'', ''Dance'', ''Smile'', ''Joy'', ''Song A'']), 200)"
  by (simp add: handler_defs demo_defs string_defs)

lemma demo_by_mood_sad:
  "fst (recommend_songs_by_mood demo_env (gens 3 0) (mood_request ''SAD''))
     = Inr (MoodSongs (lit ''Sad'') (map (\<lambda>n. Str (lit n)) [''SONG A'', ''Blue'']), 200)"
  by (simp add: handler_defs demo_defs string_defs)

lemma demo_pools:
  "length (songs_by_mood demo_env (lit ''Happy'')) = 6"
  "length (songs_by_mood demo_env (lit ''Sad'')) = 2"
  by (simp_all add: handler_defs demo_defs string_defs)

lemma demo_song_a_names:
  "\<not> name_matches demo_env (py_strip (lit '' song a '')) (csv demo_env ! 0)"
  "name_matches demo_env (py_strip (lit '' song a '')) (csv demo_env ! 1)"
  "name_matches demo_env (py_strip (lit '' song a '')) (csv demo_env ! 4)"
  "valence (csv demo_env ! 1) = 0" "valence (csv demo_env ! 4) = 1"
  by (simp_all add: name_matches_def demo_defs string_defs)

section \<open>What a recommendation by song contains\<close>

text \<open>
  C1, amended. In a 200 response of \<open>recommend_songs_by_song\<close> the field
  \<open>song_input\<close> is the stripped \<open>song\<close> field of the request; every recommended
  name is the name of a dataset row whose mood is the predicted mood, and no recommended
  name equals \<open>song_input\<close>, the stripped query, when both are lowercased.
\<close>

theorem recommendations_match_mood_and_differ:
  assumes "fst (recommend_songs_by_song E g req) = Inr (SongRecs s p recs, 200)"
  shows "(\<exists>d q. request_data req = PDict d \<and> map_of d (lit ''song'') = Some (PStr q)
            \<and> s = py_strip q)
    \<and> (\<forall>n \<in> set recs. (\<exists>r \<in> set (df E). song_name r = n \<and> mood r = Str p)
                        \<and> \<not> cell_eq (str_lower (unicode E) n) (py_lower (unicode E) s))"
proof -
  obtain d q row0 rest where req: "request_data req = PDict d"
      "map_of d (lit ''song'') = Some (PStr q)" "s = py_strip q"
    and r: "fst (recommend_from_prediction E g s (predict_mood E row0)) = Inr (SongRecs s p recs, 200)"
    using by_song_200 [OF assms] by blast
  obtain xs where xs: "fst (sample E (mood_songs E p s)
      (min (fst (randint E (py_random g) 5 8)) (length (mood_songs E p s)))
      (Some 42) (np_random g)) = Inr xs"
      "recs = map song_name xs"
    using from_prediction_200 [OF r] by blast
  have sub: "set xs \<subseteq> set (mood_songs E p s)"
    using sample_Inr(1) [OF xs(1)] .
  have "\<forall>n \<in> set recs. (\<exists>r \<in> set (df E). song_name r = n \<and> mood r = Str p)
                        \<and> \<not> cell_eq (str_lower (unicode E) n) (py_lower (unicode E) s)"
  proof
    fix n assume "n \<in> set recs"
    then obtain r where r: "r \<in> set xs" "n = song_name r"
      using xs(2) by auto
    then have "r \<in> set (df E)" "cell_eq (mood r) p" "\<not> name_matches E s r"
      using sub by (auto simp: mood_songs_def)
    then show "(\<exists>r \<in> set (df E). song_name r = n \<and> mood r = Str p)
                        \<and> \<not> cell_eq (str_lower (unicode E) n) (py_lower (unicode E) s)"
      using r(2) by (auto simp: cell_eq_iff name_matches_def)
  qed
  then show ?thesis
    using req by blast
qed

theorem recommendations_match_mood_and_differ_witness:
  "fst (recommend_songs_by_song demo_env (gens 0 0) (song_request '' song a ''))
     = Inr (SongRecs (lit ''song a'') (lit ''Happy'')
             (map (\<lambda>n. Str (lit n)) [''Shine'', ''Dance'', ''Smile'', ''Joy'', ''Sunny'']), 200)
   \<and> \<not> cell_eq (str_lower (unicode demo_env) (Str (lit ''Joy'')))
            (py_lower (unicode demo_env) (lit ''song a''))
   \<and> (\<exists>r \<in> set (df demo_env). song_name r = Str (lit ''Joy'') \<and> mood r = Str (lit ''Happy''))"
proof -
  have r: "fst (recommend_songs_by_song demo_env (gens 0 0) (song_request '' song a ''))
     = Inr (SongRecs (lit ''song a'') (lit ''Happy'')
             (map (\<lambda>n. Str (lit n)) [''Shine'', ''Dance'', ''Smile'', ''Joy'', ''Sunny'']), 200)"
    by (simp add: handler_defs demo_defs string_defs)
  show ?thesis
    using recommendations_match_mood_and_differ [OF r] r by simp
qed

text \<open>
  Against the query as it was sent the property fails: the query \<open>" Foo"\<close> is
  stripped to \<open>Foo\<close>, the row \<open>foo\<close> is matched, and the row named
  \<open>" Foo"\<close>, whose lowercased name keeps its space, is recommended.
\<close>

theorem stripped_query_counterexample:
  "fst (recommend_songs_by_song spaced_env (gens 0 0) (song_request '' Foo''))
     = Inr (SongRecs (lit ''Foo'') (lit ''Happy'') [Str (lit '' Foo'')], 200)
   \<and> cell_eq (str_lower (unicode spaced_env) (Str (lit '' Foo'')))
        (py_lower (unicode spaced_env) (lit '' Foo''))"
  by (simp add: handler_defs demo_defs string_defs)

section \<open>The number of sampled songs\<close>

text \<open>
  C2. When \<open>randint\<close> and \<open>np_permutation\<close> keep their contracts, a 200 response
  of either handler lists \<open>min k N\<close> names, where \<open>N\<close> is the size of the candidate
  pool and \<open>k\<close> the integer drawn: between \<open>min 5 N\<close> and \<open>min 8 N\<close> names,
  and \<open>N\<close> names when \<open>N < 5\<close>.
\<close>

theorem sampled_count_bounds:
  assumes "permutation_contract E" "randint_contract E"
  shows "(fst (recommend_songs_by_mood E g req) = Inr (MoodSongs m songs, 200)
      \<longrightarrow> (let N = length (songs_by_mood E m) in
             length songs = min (fst (randint E (py_random g) 5 8)) N
             \<and> min 5 N \<le> length songs \<and> length songs \<le> min 8 N
             \<and> (N < 5 \<longrightarrow> length songs = N)))
    \<and> (fst (recommend_songs_by_song E g req) = Inr (SongRecs s p recs, 200)
      \<longrightarrow> (let N = length (mood_songs E p s) in
             length recs = min (fst (randint E (py_random g) 5 8)) N
             \<and> min 5 N \<le> length recs \<and> length recs \<le> min 8 N
             \<and> (N < 5 \<longrightarrow> length recs = N)))"
proof -
  let ?k = "fst (randint E (py_random g) 5 8)"
  note k = randint_5_8 [OF assms(2), of "py_random g"]
  have a: "length songs = min ?k (length (songs_by_mood E m))"
    if h: "fst (recommend_songs_by_mood E g req) = Inr (MoodSongs m songs, 200)"
  proof -
    obtain xs where xs: "fst (sample E (songs_by_mood E m)
        (min ?k (length (songs_by_mood E m))) (Some 42) (np_random g)) = Inr xs"
        "songs = map song_name xs"
      using by_mood_200 [OF h] by blast
    show ?thesis
      using sample_contract_length [OF assms(1) xs(1)] xs(2) by simp
  qed
  have b: "length recs = min ?k (length (mood_songs E p s))"
    if h: "fst (recommend_songs_by_song E g req) = Inr (SongRecs s p recs, 200)"
  proof -
    obtain row0 where r: "fst (recommend_from_prediction E g s (predict_mood E row0))
        = Inr (SongRecs s p recs, 200)"
      using by_song_200 [OF h] by blast
    obtain xs where xs: "fst (sample E (mood_songs E p s)
        (min ?k (length (mood_songs E p s))) (Some 42) (np_random g)) = Inr xs"
        "recs = map song_name xs"
      using from_prediction_200 [OF r] by blast
    show ?thesis
      using sample_contract_length [OF assms(1) xs(1)] xs(2) by simp
  qed
  have c: "min 5 N \<le> min ?k N \<and> min ?k N \<le> min 8 N \<and> (N < 5 \<longrightarrow> min ?k N = N)" for N
    using count_bounds [of ?k N] k by simp
  show ?thesis
    unfolding Let_def using a b c by metis
qed

theorem sampled_count_bounds_witness:
  "permutation_contract demo_env \<and> randint_contract demo_env
   \<and> fst (recommend_songs_by_mood demo_env (gens 0 0) (mood_request '' happy''))
     = Inr (MoodSongs (lit ''Happy'')
             (map (\<lambda>n. Str (lit n)) [''Shine'', ''Dance'', ''Smile'', ''Joy'', ''Song A'']), 200)
   \<and> length (songs_by_mood demo_env (lit ''Happy'')) = 6
   \<and> fst (recommend_songs_by_mood demo_env (gens 3 0) (mood_request ''SAD''))
     = Inr (MoodSongs (lit ''Sad'') (map (\<lambda>n. Str (lit n)) [''SONG A'', ''Blue'']), 200)
   \<and> length (songs_by_mood demo_env (lit ''Sad'')) = 2"
proof -
  let ?N = "length (songs_by_mood demo_env (lit ''Sad''))"
  have "min 5 ?N \<le> 2 \<and> (?N < 5 \<longrightarrow> 2 = ?N)"
    using sampled_count_bounds [OF demo_permutation_contract demo_randint_contract,
        where g = "gens 3 0" and req = "mood_request ''SAD''" and m = "lit ''Sad''"
          and songs = "map (\<lambda>n. Str (lit n)) [''SONG A'', ''Blue'']",
        THEN conjunct1]
      demo_by_mood_sad
    by (auto simp add: Let_def)
  then have "?N = 2"
    by linarith
  then show ?thesis
    using demo_permutation_contract demo_randint_contract demo_by_mood_happy demo_by_mood_sad
    by (simp add: demo_pools(1))
qed

section \<open>The validation responses of the mood endpoint\<close>

text \<open>
  C3, amended. For a request whose data is an object with the \<open>mood\<close> field absent
  (then \<open>s\<close> is the default, the empty string) or a string \<open>s\<close>:
  \<open>recommend_songs_by_mood\<close> answers 400 \<open>Mood is required.\<close> exactly when the
  field is absent or empty after normalization, and answers 404
  \<open>Mood 'm' not found.\<close> exactly when \<open>m\<close> is the normalized mood, is not empty
  and is not in \<open>available_moods\<close>.
\<close>

theorem mood_validation_responses:
  assumes "request_data req = PDict d"
    and "map_of d (lit ''mood'') = None \<and> s = [] \<or> map_of d (lit ''mood'') = Some (PStr s)"
  shows "(fst (recommend_songs_by_mood E g req) = Inr (Error (lit ''Mood is required.''), 400)
      \<longleftrightarrow> map_of d (lit ''mood'') = None \<or> py_capitalize (unicode E) (py_strip s) = [])
   \<and> (fst (recommend_songs_by_mood E g req)
        = Inr (Error (lit ''Mood '' @ apos @ m @ apos @ lit '' not found.''), 404)
      \<longleftrightarrow> m = py_capitalize (unicode E) (py_strip s) \<and> m \<noteq> []
          \<and> m \<notin> set (available_moods E))"
proof -
  let ?m = "py_capitalize (unicode E) (py_strip s)"
  have v: "dict_get (request_data req) (lit ''mood'') (PStr []) = Inr (PStr s)"
    using assms by (auto simp: dict_get_def)
  have n: "normalize_mood_query (unicode E) (PStr s) = Inr ?m"
    by (simp add: normalize_mood_query_def pyval_strip_def)
  have none: "?m = []" if "map_of d (lit ''mood'') = None"
    using that assms(2) by (simp add: py_strip_def py_capitalize_def)
  have r: "fst (recommend_songs_by_mood E g req) =
     (if ?m = [] then Inr (Error (lit ''Mood is required.''), 400)
      else if ?m \<notin> set (available_moods E) then
        Inr (Error (lit ''Mood '' @ apos @ ?m @ apos @ lit '' not found.''), 404)
      else (case fst (sample E (songs_by_mood E ?m)
                   (min (fst (randint E (py_random g) 5 8)) (length (songs_by_mood E ?m)))
                   (Some 42) (np_random g)) of
              Inl e \<Rightarrow> Inl e
            | Inr sampled \<Rightarrow> Inr (MoodSongs ?m (map song_name sampled), 200)))"
    by (simp add: fst_by_mood [where np = "np_random g"] v n)
  have a: "fst (recommend_songs_by_mood E g req) = Inr (Error (lit ''Mood is required.''), 400)
      \<longleftrightarrow> map_of d (lit ''mood'') = None \<or> ?m = []"
    using none by (auto simp: r split: sum.splits)
  have b: "fst (recommend_songs_by_mood E g req)
        = Inr (Error (lit ''Mood '' @ apos @ m @ apos @ lit '' not found.''), 404)
      \<longleftrightarrow> m = ?m \<and> m \<noteq> [] \<and> m \<notin> set (available_moods E)"
    by (auto simp: r split: sum.splits)
  show ?thesis
    using a b by (rule conjI)
qed

theorem mood_validation_responses_witness:
  "fst (recommend_songs_by_mood demo_env (gens 0 0) (mood_request ''jazz''))
     = Inr (Error (lit ''Mood '' @ apos @ lit ''Jazz'' @ apos @ lit '' not found.''), 404)
   \<and> fst (recommend_songs_by_mood demo_env (gens 0 0) (mood_request ''  ''))
     = Inr (Error (lit ''Mood is required.''), 400)
   \<and> fst (recommend_songs_by_mood demo_env (gens 0 0) None)
     = Inr (Error (lit ''Mood is required.''), 400)"
proof -
  have j: "py_capitalize (unicode demo_env) (py_strip (lit ''jazz'')) = lit ''Jazz''"
    and e: "py_capitalize (unicode demo_env) (py_strip (lit ''  '')) = []"
    by (simp_all add: string_defs)
  have n: "lit ''Jazz'' \<notin> set (available_moods demo_env)" "lit ''Jazz'' \<noteq> []"
    by (simp_all add: mem_available_moods demo_moods lit_def)
  have 1: "fst (recommend_songs_by_mood demo_env (gens 0 0) (mood_request ''jazz''))
     = Inr (Error (lit ''Mood '' @ apos @ lit ''Jazz'' @ apos @ lit '' not found.''), 404)"
    using mood_validation_responses [of "mood_request ''jazz''"
        "[(lit ''mood'', PStr (lit ''jazz''))]" "lit ''jazz''" demo_env "gens 0 0" "lit ''Jazz''"]
      j n
    by (simp add: mood_request_def request_data_simps)
  have 2: "fst (recommend_songs_by_mood demo_env (gens 0 0) (mood_request ''  ''))
     = Inr (Error (lit ''Mood is required.''), 400)"
    using mood_validation_responses [of "mood_request ''  ''"
        "[(lit ''mood'', PStr (lit ''  ''))]" "lit ''  ''" demo_env "gens 0 0" "[]"]
      e
    by (simp add: mood_request_def request_data_simps)
  have 3: "fst (recommend_songs_by_mood demo_env (gens 0 0) None)
     = Inr (Error (lit ''Mood is required.''), 400)"
    using mood_validation_responses [of None "[]" "[]" demo_env "gens 0 0" "[]"]
    by (simp add: request_data_simps)
  show ?thesis
    using 1 2 3 by simp
qed

text \<open>
  Without the condition that the normalized mood is not empty the second equivalence
  fails: a mood of two spaces normalizes to the empty string, which is not an available
  mood of the example dataset, and the answer is the 400.
\<close>

theorem empty_mood_counterexample:
  "py_capitalize (unicode demo_env) (py_strip (lit ''  '')) = []
   \<and> [] \<notin> set (available_moods demo_env)
   \<and> fst (recommend_songs_by_mood demo_env (gens 0 0) (mood_request ''  ''))
       = Inr (Error (lit ''Mood is required.''), 400)
   \<and> fst (recommend_songs_by_mood demo_env (gens 0 0) (mood_request ''  ''))
       \<noteq> Inr (Error (lit ''Mood '' @ apos @ [] @ apos @ lit '' not found.''), 404)"
  by (simp add: handler_defs demo_defs string_defs)

section \<open>The three normalization sites\<close>

text \<open>
  C4. The three sites do not agree on every string. Only the dataset site lowercases
  before it capitalizes, so with Python's case mappings of U+212A KELVIN SIGN the dataset
  mood \<open>U+212A\<close> is stored as \<open>K\<close>, while the same string in a request or in a
  label stays \<open>U+212A\<close>; a request for the mood as the file spells it is answered
  404. (On ASCII strings the sites agree: \<open>normalization_sites_agree_on_ascii\<close>.)
\<close>

theorem kelvin_sign_mood_not_found:
  "lower_of (unicode kelvin_env) [0x212A] 0 0x212A = [0x6B]
   \<and> title_of (unicode kelvin_env) 0x212A = [0x212A]
   \<and> normalize_dataset_mood (unicode kelvin_env) (Str [0x212A]) = Str (lit ''K'')
   \<and> normalize_mood_query (unicode kelvin_env) (PStr [0x212A]) = Inr [0x212A]
   \<and> normalize_label (unicode kelvin_env) (LabelStr [0x212A]) = Inr [0x212A]
   \<and> lit ''K'' \<noteq> [0x212A]
   \<and> map mood (csv kelvin_env) = [Str [0x212A]]
   \<and> available_moods kelvin_env = [lit ''K'']
   \<and> fst (recommend_songs_by_mood kelvin_env g (Some (PDict [(lit ''mood'', PStr [0x212A])])))
       = Inr (Error (lit ''Mood '' @ apos @ [0x212A] @ apos @ lit '' not found.''), 404)"
  by (simp add: handler_defs demo_defs string_defs available_moods_def unique_def)

section \<open>Requests that raise\<close>

text \<open>
  C5. Not every request is answered with a JSON error body: a \<open>mood\<close> field that is a
  number, or a body that is a non-empty JSON array, makes the handler raise
  \<open>AttributeError\<close>, which no \<open>except\<close> clause of the handler catches.
\<close>

theorem non_string_field_escapes:
  "recommend_songs_by_mood E g (Some (PDict [(lit ''mood'', PInt 5)]))
     = (Inl (attribute_error (lit ''int'') (lit ''strip'')), g)
   \<and> recommend_songs_by_song E g (Some (PList [PInt 1]))
     = (Inl (attribute_error (lit ''list'') (lit ''get'')), g)"
  by (simp add: recommend_songs_by_mood_def recommend_songs_by_song_def request_data_def
      get_json_silent_def py_or_def dict_get_def normalize_mood_query_def pyval_strip_def)

section \<open>The sample is fixed by the seed\<close>

text \<open>
  C6. The sampling step with a seed returns the same rows for the same pool and the
  same \<open>k\<close> in any two states of numpy's global generator, and leaves that state as
  it found it: the permutation is drawn by a generator built from the seed. Hence two
  calls of a handler on the same request, in any two states of the generators that draw
  the same \<open>k\<close>, give the same response. (Without a seed the sample follows the
  global generator, as the witness shows.)
\<close>

theorem seeded_sample_is_fixed:
  "fst (sample E rows k (Some seed) np1) = fst (sample E rows k (Some seed) np2)
   \<and> snd (sample E rows k (Some seed) np1) = np1
   \<and> (fst (randint E (py_random g1) 5 8) = fst (randint E (py_random g2) 5 8)
      \<longrightarrow> fst (recommend_songs_by_mood E g1 req) = fst (recommend_songs_by_mood E g2 req)
        \<and> fst (recommend_songs_by_song E g1 req) = fst (recommend_songs_by_song E g2 req))"
proof -
  have s: "fst (sample E rows k (Some seed) np1) = fst (sample E rows k (Some seed) np2)"
    "snd (sample E rows k (Some seed) np1) = np1"
    by (simp_all add: sample_seeded)
  have h: "fst (recommend_songs_by_mood E g1 req) = fst (recommend_songs_by_mood E g2 req)
        \<and> fst (recommend_songs_by_song E g1 req) = fst (recommend_songs_by_song E g2 req)"
    if k: "fst (randint E (py_random g1) 5 8) = fst (randint E (py_random g2) 5 8)"
  proof -
    have m: "fst (recommend_songs_by_mood E g1 req) = fst (recommend_songs_by_mood E g2 req)"
      unfolding fst_by_mood [where np = np1] k by (rule refl)
    have p: "fst (recommend_from_prediction E g1 s pr)
        = fst (recommend_from_prediction E g2 s pr)" for s pr
      unfolding fst_from_prediction [where np = np1] k by (rule refl)
    have "fst (recommend_songs_by_song E g1 req) = fst (recommend_songs_by_song E g2 req)"
      unfolding fst_by_song p by (rule refl)
    then show ?thesis
      using m by simp
  qed
  show ?thesis
    using s h by simp
qed

lemma demo_unseeded_samples:
  "fst (sample demo_env [a, b] 1 None (0::nat)) = Inr [b]"
  "fst (sample demo_env [a, b] 1 None (1::nat)) = Inr [a]"
  "fst (sample demo_env [a, b] 1 (Some 42) (0::nat)) = Inr [b]"
  by (simp_all add: sample_def seeded_permutation_def take_rows_def demo_env_def
      demo_resources_def)

theorem seeded_sample_is_fixed_witness:
  "fst (sample demo_env [lit ''a'', lit ''b''] 1 None (0::nat))
     \<noteq> fst (sample demo_env [lit ''a'', lit ''b''] 1 None (1::nat))
   \<and> fst (sample demo_env [lit ''a'', lit ''b''] 1 (Some 42) (0::nat))
     = fst (sample demo_env [lit ''a'', lit ''b''] 1 (Some 42) (1::nat))
   \<and> fst (randint demo_env (py_random (gens 0 0)) 5 8)
     = fst (randint demo_env (py_random (gens 4 1)) 5 8)
   \<and> fst (recommend_songs_by_mood demo_env (gens 0 0) (mood_request '' happy''))
     = fst (recommend_songs_by_mood demo_env (gens 4 1) (mood_request '' happy''))"
proof -
  have k: "fst (randint demo_env (py_random (gens 0 0)) 5 8)
     = fst (randint demo_env (py_random (gens 4 1)) 5 8)"
    by (simp add: demo_env_def demo_resources_def gens_def)
  have d: "fst (sample demo_env [lit ''a'', lit ''b''] 1 None (0::nat))
     \<noteq> fst (sample demo_env [lit ''a'', lit ''b''] 1 None (1::nat))"
    unfolding demo_unseeded_samples by (simp add: lit_def)
  show ?thesis
    using seeded_sample_is_fixed [of demo_env "[lit ''a'', lit ''b'']" 1 42 0 1
        "gens 0 0" "gens 4 1" "mood_request '' happy''"] k d
    by simp
qed

section \<open>Available moods have songs\<close>

text \<open>
  C7. A mood that is in \<open>available_moods\<close> has at least one row in the dataset, so the
  filter of \<open>recommend_songs_by_mood\<close> is not empty for it; and whatever the request,
  the handler never answers with the 404 \<open>No songs found for mood\<close>.
\<close>

theorem available_mood_has_songs:
  "(m \<in> set (available_moods E) \<longrightarrow> songs_by_mood E m \<noteq> [])
   \<and> fst (recommend_songs_by_mood E g req)
       \<noteq> Inr (Error (lit ''No songs found for mood '' @ apos @ m @ apos @ lit ''.''), 404)"
proof -
  have "fst (recommend_songs_by_mood E g req)
       \<noteq> Inr (Error (lit ''No songs found for mood '' @ apos @ m @ apos @ lit ''.''), 404)"
    by (auto simp: fst_by_mood [where np = "np_random g"] no_songs_msg_neq
        split: sum.splits)
  then show ?thesis
    by (simp add: available_has_songs)
qed

theorem available_mood_has_songs_witness:
  "lit ''Happy'' \<in> set (available_moods demo_env) \<and> songs_by_mood demo_env (lit ''Happy'') \<noteq> []"
proof -
  have "lit ''Happy'' \<in> set (available_moods demo_env)"
    by (simp add: mem_available_moods demo_moods)
  then show ?thesis
    using available_mood_has_songs [of "lit ''Happy''" demo_env] by simp
qed

section \<open>The first matching row is classified\<close>

text \<open>
  C8, amended. When the stripped query is not empty and row \<open>i\<close> of the file is the
  first whose lowercased name equals the lowercased stripped query,
  \<open>recommend_songs_by_song\<close> passes the six features of row \<open>i\<close>, in the order of
  \<open>features\<close>, to the model, and answers from that prediction.
\<close>

theorem first_match_feeds_classifier:
  assumes "py_strip q \<noteq> []"
    and "i < length (csv E)"
    and "name_matches E (py_strip q) (csv E ! i)"
    and "\<forall>j<i. \<not> name_matches E (py_strip q) (csv E ! j)"
  shows "recommend_songs_by_song E g (Some (PDict [(lit ''song'', PStr q)]))
    = recommend_from_prediction E g (py_strip q)
        (decode_prediction E
           (model_predict E
              [valence (csv E ! i), danceability (csv E ! i), energy (csv E ! i),
               tempo (csv E ! i), acousticness (csv E ! i), liveness (csv E ! i)]))"
proof -
  let ?s = "py_strip q"
  have i: "i < length (df E)"
    using assms(2) by (simp add: length_df)
  have "\<forall>j<i. \<not> name_matches E ?s (df E ! j)"
    using assms(2,4) by (simp add: name_matches_df)
  then obtain rest where rows: "song_rows E ?s = df E ! i # rest"
    using filter_first_match [of i "df E" "name_matches E ?s"] i assms(2,3)
    by (auto simp: song_rows_def name_matches_df)
  have "predict_mood E (df E ! i) = decode_prediction E
           (model_predict E
              [valence (csv E ! i), danceability (csv E ! i), energy (csv E ! i),
               tempo (csv E ! i), acousticness (csv E ! i), liveness (csv E ! i)])"
    using input_features_df [OF assms(2)] by (simp add: predict_mood_def input_features_def)
  then show ?thesis
    using assms(1) rows
    by (simp add: recommend_songs_by_song_def request_data_simps dict_get_def pyval_strip_def)
qed

theorem first_match_feeds_classifier_witness:
  "\<not> name_matches demo_env (py_strip (lit '' song a '')) (csv demo_env ! 0)
   \<and> name_matches demo_env (py_strip (lit '' song a '')) (csv demo_env ! 1)
   \<and> name_matches demo_env (py_strip (lit '' song a '')) (csv demo_env ! 4)
   \<and> valence (csv demo_env ! 4) = 1
   \<and> recommend_songs_by_song demo_env (gens 0 0) (song_request '' song a '')
     = recommend_from_prediction demo_env (gens 0 0) (lit ''song a'')
         (decode_prediction demo_env (model_predict demo_env [0, 0, 0, 0, 0, 0]))"
proof -
  have s: "py_strip (lit '' song a '') = lit ''song a''" "lit ''song a'' \<noteq> []"
    by (simp_all add: string_defs)
  have f: "[valence (csv demo_env ! 1), danceability (csv demo_env ! 1), energy (csv demo_env ! 1),
            tempo (csv demo_env ! 1), acousticness (csv demo_env ! 1), liveness (csv demo_env ! 1)]
           = [0, 0, 0, 0, 0, 0]"
    by (simp add: demo_defs)
  have first: "\<forall>j<1. \<not> name_matches demo_env (py_strip (lit '' song a '')) (csv demo_env ! j)"
    using demo_song_a_names(1) by simp
  show ?thesis
    using first_match_feeds_classifier [of "lit '' song a ''" 1 demo_env "gens 0 0"] first
      demo_song_a_names s f
    by (simp add: demo_csv_length song_request_def)
qed

text \<open>
  The first row that matches the query as it was sent need not be the one classified:
  the query \<open>" Foo"\<close> equals the name of row 0 when both are lowercased, and row 0
  has the features of a sad song, but the handler strips the query, matches row 1 and
  predicts \<open>Happy\<close> from its features.
\<close>

theorem first_raw_match_counterexample:
  "cell_eq (str_lower (unicode spaced_first_env) (song_name (csv spaced_first_env ! 0)))
     (py_lower (unicode spaced_first_env) (lit '' Foo''))
   \<and> input_features (csv spaced_first_env ! 0) = [1, 0, 0, 0, 0, 0]
   \<and> decode_prediction spaced_first_env (model_predict spaced_first_env [1, 0, 0, 0, 0, 0])
       = Inr (lit ''Sad'')
   \<and> input_features (csv spaced_first_env ! 1) = [0, 0, 0, 0, 0, 0]
   \<and> recommend_songs_by_song spaced_first_env (gens 0 0) (song_request '' Foo'')
       = recommend_from_prediction spaced_first_env (gens 0 0) (lit ''Foo'')
           (decode_prediction spaced_first_env
              (model_predict spaced_first_env [0, 0, 0, 0, 0, 0]))
   \<and> fst (recommend_songs_by_song spaced_first_env (gens 0 0) (song_request '' Foo''))
       = Inr (SongRecs (lit ''Foo'') (lit ''Happy'') [Str (lit ''Joy'')], 200)"
  by (simp add: handler_defs demo_defs string_defs)

section \<open>Preprocessing: every mood is a string\<close>

text \<open>
  C9. After the load and the normalization of the \<open>mood\<close> column, the dataset has the
  rows of the file, the mood of every row is a string, and a row whose mood was missing
  in the file holds the string \<open>Nan\<close>.
\<close>

theorem loaded_mood_is_string:
  assumes "i < length (csv E)"
  shows "length (df E) = length (csv E)
    \<and> (\<exists>s. mood (df E ! i) = Str s)
    \<and> (mood (csv E ! i) = NaN \<longrightarrow> mood (df E ! i) = Str (lit ''Nan''))"
  using assms
  by (simp add: length_df mood_df_nth normalize_dataset_mood_is_Str normalize_dataset_mood_NaN)

theorem loaded_mood_is_string_witness:
  "(3::nat) < length (csv demo_env) \<and> mood (csv demo_env ! 3) = NaN
   \<and> mood (df demo_env ! 3) = Str (lit ''Nan'')"
  using loaded_mood_is_string [of 3 demo_env]
  by (simp add: demo_csv_length demo_csv_3)

section \<open>Requests without the field\<close>

text \<open>
  C10. A request with no body or a body that is not JSON (\<open>None\<close>), with the body
  \<open>null\<close>, or with an object that lacks the field gets, from either handler, the 400
  response of a request whose field is the empty string; nothing is raised and the state
  of the generators is untouched.
\<close>

theorem absent_body_or_field_is_400:
  "((req = None \<or> req = Some PNone
       \<or> (\<exists>d. req = Some (PDict d) \<and> map_of d (lit ''mood'') = None))
      \<longrightarrow> recommend_songs_by_mood E g req = (Inr (Error (lit ''Mood is required.''), 400), g)
        \<and> recommend_songs_by_mood E g req
            = recommend_songs_by_mood E g (Some (PDict [(lit ''mood'', PStr [])])))
   \<and> ((req = None \<or> req = Some PNone
       \<or> (\<exists>d. req = Some (PDict d) \<and> map_of d (lit ''song'') = None))
      \<longrightarrow> recommend_songs_by_song E g req
            = (Inr (Error (lit ''Song name is required.''), 400), g)
        \<and> recommend_songs_by_song E g req
            = recommend_songs_by_song E g (Some (PDict [(lit ''song'', PStr [])])))"
proof -
  have m: "recommend_songs_by_mood E g req = (Inr (Error (lit ''Mood is required.''), 400), g)"
    if "req = None \<or> req = Some PNone
        \<or> (\<exists>d. req = Some (PDict d) \<and> map_of d (lit ''mood'') = None)"
    using that by (auto intro: by_mood_missing simp: request_data_simps)
  have s: "recommend_songs_by_song E g req
      = (Inr (Error (lit ''Song name is required.''), 400), g)"
    if "req = None \<or> req = Some PNone
        \<or> (\<exists>d. req = Some (PDict d) \<and> map_of d (lit ''song'') = None)"
    using that by (auto intro: by_song_missing simp: request_data_simps)
  show ?thesis
    using m s by (simp add: by_mood_empty_field by_song_empty_field)
qed

theorem absent_body_or_field_is_400_witness:
  "recommend_songs_by_mood demo_env (gens 0 0) (Some (PDict [(lit ''song'', PStr (lit ''Joy''))]))
     = (Inr (Error (lit ''Mood is required.''), 400), gens 0 0)
   \<and> recommend_songs_by_song demo_env (gens 0 0) None
     = (Inr (Error (lit ''Song name is required.''), 400), gens 0 0)"
proof -
  have "map_of [(lit ''song'', PStr (lit ''Joy''))] (lit ''mood'') = None"
    by (simp add: lit_def)
  then show ?thesis
    using absent_body_or_field_is_400
            [of "Some (PDict [(lit ''song'', PStr (lit ''Joy''))])" demo_env "gens 0 0"]
      absent_body_or_field_is_400 [of None demo_env "gens 0 0"]
    by simp
qed

section \<open>Requests that are answered\<close>

text \<open>
  When \<open>np_permutation\<close> keeps its contract and the request data is an object whose
  \<open>mood\<close> and \<open>song\<close> fields are each absent or a string, both handlers return a
  response: no exception leaves them.
\<close>

theorem string_fields_are_answered:
  assumes "permutation_contract E"
    and "request_data req = PDict d"
    and "map_of d (lit ''mood'') = None \<or> (\<exists>s. map_of d (lit ''mood'') = Some (PStr s))"
    and "map_of d (lit ''song'') = None \<or> (\<exists>s. map_of d (lit ''song'') = Some (PStr s))"
  shows "(\<exists>r. fst (recommend_songs_by_mood E g req) = Inr r)
    \<and> (\<exists>r. fst (recommend_songs_by_song E g req) = Inr r)"
proof -
  obtain vm where vm: "dict_get (request_data req) (lit ''mood'') (PStr []) = Inr (PStr vm)"
    using assms(2,3) by (auto simp: dict_get_def)
  obtain vs where vs: "dict_get (request_data req) (lit ''song'') (PStr []) = Inr (PStr vs)"
    using assms(2,4) by (auto simp: dict_get_def)
  have m: "\<exists>r. fst (recommend_songs_by_mood E g req) = Inr r"
  proof -
    let ?m = "py_capitalize (unicode E) (py_strip vm)"
    obtain xs where "fst (sample E (songs_by_mood E ?m)
        (min (fst (randint E (py_random g) 5 8)) (length (songs_by_mood E ?m)))
        (Some 42) (np_random g)) = Inr xs"
      using sample_min_Inr [OF assms(1)] by blast
    then show ?thesis
      using vm
      by (simp add: fst_by_mood [where np = "np_random g"] normalize_mood_query_def
          pyval_strip_def)
  qed
  have s: "\<exists>r. fst (recommend_songs_by_song E g req) = Inr r"
    using vs from_prediction_answers [OF assms(1)]
    by (simp add: fst_by_song pyval_strip_def split: list.splits)
  show ?thesis
    using m s by simp
qed

theorem string_fields_are_answered_witness:
  "permutation_contract demo_env
   \<and> (\<exists>r. fst (recommend_songs_by_mood demo_env (gens 0 0) (mood_request ''jazz'')) = Inr r)
   \<and> (\<exists>r. fst (recommend_songs_by_song demo_env (gens 0 0) (mood_request ''jazz'')) = Inr r)"
proof -
  have "map_of [(lit ''mood'', PStr (lit ''jazz''))] (lit ''song'') = None"
    by (simp add: lit_def)
  then show ?thesis
    using string_fields_are_answered [OF demo_permutation_contract, of "mood_request ''jazz''"
        "[(lit ''mood'', PStr (lit ''jazz''))]" "gens 0 0"]
      demo_permutation_contract
    by (simp add: mood_request_def request_data_simps)
qed

end
